theory Spec2Isabelle
  imports Complex_Main
begin

section \<open>Numbers, errors and matrices\<close>

text \<open>
  The module \<open>opticalSystemClass.py\<close> computes with Python floats and complex numbers and
  with numpy 2x2 matrices of float64. Floats are modelled by \<open>real\<close> and complex numbers by
  \<open>complex\<close>: rounding and overflow are outside this model (the section on double precision
  below adds them for the constructor and \<open>propagate_beam\<close>). What is kept is where the two
  kinds of division differ on a zero divisor:
  \<^item> a division of Python scalars (\<open>-1/f\<close>, \<open>n1/n2\<close>, the \<open>/wavelength\<close> of the
    constructor) raises \<open>ZeroDivisionError\<close>;
  \<^item> a division of numpy scalars (those of \<open>propagate_beam\<close>, whose operands come out of
    the matrix) raises nothing and yields \<open>inf\<close> or \<open>nan\<close>, which every later operation of
    the method turns into \<open>nan\<close>; \<open>np.sqrt\<close> of a negative number yields \<open>nan\<close> as well.
    Such a value is \<open>NonFinite\<close>.
\<close>

datatype error =
  ValueError string | ZeroDivisionError | TypeError | AttributeError | OverflowError

datatype 'a npval = Finite 'a | NonFinite

definition bind_err :: "error + 'a \<Rightarrow> ('a \<Rightarrow> error + 'b) \<Rightarrow> error + 'b" where
  "bind_err r f = (case r of Inl e \<Rightarrow> Inl e | Inr v \<Rightarrow> f v)"

definition np_bind :: "'a npval \<Rightarrow> ('a \<Rightarrow> 'b npval) \<Rightarrow> 'b npval" where
  "np_bind r f = (case r of NonFinite \<Rightarrow> NonFinite | Finite v \<Rightarrow> f v)"

definition py_div :: "real \<Rightarrow> real \<Rightarrow> error + real" where
  "py_div a b = (if b = 0 then Inl ZeroDivisionError else Inr (a / b))"

definition py_cdiv :: "complex \<Rightarrow> real \<Rightarrow> error + complex" where
  "py_cdiv a b = (if b = 0 then Inl ZeroDivisionError else Inr (a / of_real b))"

definition np_divide :: "real \<Rightarrow> real \<Rightarrow> real npval" where
  "np_divide a b = (if b = 0 then NonFinite else Finite (a / b))"

definition np_cdivide :: "complex \<Rightarrow> complex \<Rightarrow> complex npval" where
  "np_cdivide a b = (if b = 0 then NonFinite else Finite (a / b))"

definition np_sqrt :: "real \<Rightarrow> real npval" where
  "np_sqrt x = (if x < 0 then NonFinite else Finite (sqrt x))"

text \<open>A 2x2 \<open>np.matrix\<close>, row by row, and the column vector \<open>[[z], [theta]]\<close> as a pair.\<close>

datatype matrix = Matrix real real real real

fun matmul :: "matrix \<Rightarrow> matrix \<Rightarrow> matrix" where
  "matmul (Matrix a b c d) (Matrix a' b' c' d') =
     Matrix (a * a' + b * c') (a * b' + b * d') (c * a' + d * c') (c * b' + d * d')"

fun matvec :: "matrix \<Rightarrow> real \<times> real \<Rightarrow> real \<times> real" where
  "matvec (Matrix a b c d) (x, y) = (a * x + b * y, c * x + d * y)"

definition eye :: matrix where
  "eye = Matrix 1 0 0 1"

section \<open>The class \<open>OpticalSystem\<close>\<close>

text \<open>
  The attributes of an instance. The four output attributes do not exist until
  \<open>propagate_beam\<close> assigns them: \<open>None\<close> is the absent attribute.
\<close>

record OpticalSystem =
  q :: complex
  wavelength :: real
  waist :: real
  theta :: real
  z :: real
  optics :: "matrix list"
  q_out :: "complex npval option"
  waist_out :: "real npval option"
  z_out :: "real option"
  theta_out :: "real option"

text \<open>
  \<open>__init__(self, wavelength, waist, z=0, theta=0, R=np.inf)\<close>. The parameter \<open>R\<close> is
  never read (\<open>NonFinite\<close> is its default \<open>np.inf\<close>). The expression
  \<open>1j*np.pi*waist**2/wavelength\<close> is \<open>((1j*np.pi)*(waist**2))/wavelength\<close>.
\<close>

definition OpticalSystem_init ::
  "real \<Rightarrow> real \<Rightarrow> real \<Rightarrow> real \<Rightarrow> real npval \<Rightarrow> error + OpticalSystem" where
  "OpticalSystem_init wavelength' waist' z' theta' R =
     bind_err (py_cdiv (\<i> * of_real pi * of_real (waist' ^ 2)) wavelength') (\<lambda>q'.
       Inr \<lparr>q = q', wavelength = wavelength', waist = waist', theta = theta', z = z',
            optics = [], q_out = None, waist_out = None, z_out = None, theta_out = None\<rparr>)"

text \<open>
  \<open>freeSpace(self, d, add=True)\<close> appends and returns \<open>None\<close>, or returns the matrix and
  appends nothing. The result is the instance with the returned value.
\<close>

definition freeSpace :: "real \<Rightarrow> bool \<Rightarrow> OpticalSystem \<Rightarrow> OpticalSystem \<times> matrix option" where
  "freeSpace d add s =
     (if add then (s\<lparr>optics := optics s @ [Matrix 1 d 0 1]\<rparr>, None)
      else (s, Some (Matrix 1 d 0 1)))"

text \<open>
  The operator \<open>@\<close> of a matrix with the value a call returned; \<open>None\<close> on either side
  is a \<open>TypeError\<close>.
\<close>

definition matmul_ret :: "matrix option \<Rightarrow> matrix option \<Rightarrow> error + matrix option" where
  "matmul_ret x y =
     (case x of None \<Rightarrow> Inl TypeError
      | Some m \<Rightarrow> (case y of None \<Rightarrow> Inl TypeError | Some m' \<Rightarrow> Inr (Some (matmul m m'))))"

definition append_ret :: "OpticalSystem \<Rightarrow> matrix option \<Rightarrow> error + OpticalSystem" where
  "append_ret s x =
     (case x of None \<Rightarrow> Inl TypeError | Some m \<Rightarrow> Inr (s\<lparr>optics := optics s @ [m]\<rparr>))"

text \<open>\<open>lens(self, f, n1=0, n2=0, d=0, type='thin')\<close>.\<close>

definition lens ::
  "real \<Rightarrow> real \<Rightarrow> real \<Rightarrow> real \<Rightarrow> string \<Rightarrow> OpticalSystem \<Rightarrow> error + OpticalSystem" where
  "lens f n1 n2 d type s =
     (if type = ''thin'' then
        bind_err (py_div (- 1) f) (\<lambda>c. Inr (s\<lparr>optics := optics s @ [Matrix 1 0 c 1]\<rparr>))
      else if type = ''thick'' then
        bind_err (py_div (n2 - n1) n1) (\<lambda>t1.
        bind_err (py_div t1 f) (\<lambda>c1.
        bind_err (py_div n2 n1) (\<lambda>d1.
        case freeSpace d False s of (s', p) \<Rightarrow>
        bind_err (matmul_ret (Some (Matrix 1 0 c1 d1)) p) (\<lambda>m1.
        bind_err (py_div (n1 - n2) n2) (\<lambda>t2.
        bind_err (py_div t2 f) (\<lambda>c2.
        bind_err (py_div n1 n2) (\<lambda>d2.
        bind_err (matmul_ret m1 (Some (Matrix 1 0 c2 d2))) (\<lambda>m.
        append_ret s' m))))))))
      else Inl (ValueError ''Invalid lens type''))"

text \<open>\<open>mirror(self, radius=0, type='flat')\<close>.\<close>

definition mirror :: "real \<Rightarrow> string \<Rightarrow> OpticalSystem \<Rightarrow> error + OpticalSystem" where
  "mirror radius type s =
     (if type = ''flat'' then Inr (s\<lparr>optics := optics s @ [Matrix 1 0 0 1]\<rparr>)
      else if type = ''curved'' then
        bind_err (py_div (- 2) radius) (\<lambda>c. Inr (s\<lparr>optics := optics s @ [Matrix 1 0 c 1]\<rparr>))
      else Inl (ValueError ''Invalid mirror type''))"

text \<open>\<open>interface(self, n1, n2, d)\<close>.\<close>

definition interface :: "real \<Rightarrow> real \<Rightarrow> real \<Rightarrow> OpticalSystem \<Rightarrow> error + OpticalSystem" where
  "interface n1 n2 d s =
     bind_err (py_div n1 n2) (\<lambda>r1.
     let initialInt = Some (Matrix 1 0 0 r1) in
     case freeSpace d False s of (s', propagation) \<Rightarrow>
     bind_err (py_div n2 n1) (\<lambda>r2.
     let finalInt = Some (Matrix 1 0 0 r2) in
     bind_err (matmul_ret initialInt propagation) (\<lambda>m1.
     bind_err (matmul_ret m1 finalInt) (\<lambda>m.
     append_ret s' m))))"

text \<open>
  The loop of \<open>propagate_beam\<close>:
  \<open>ABCD_matrix = np.eye(2); for element in reversed(self.optics): ABCD_matrix =
  np.matmul(ABCD_matrix, element)\<close>.
\<close>

definition ABCD_matrix :: "matrix list \<Rightarrow> matrix" where
  "ABCD_matrix os = fold (\<lambda>element M. matmul M element) (rev os) eye"

text \<open>
  The statement \<open>self.q_out = A*self.q + B/(C*self.q + D)\<close>, as Python parses it: the
  quotient is \<open>B/(C*self.q + D)\<close> alone.
\<close>

definition compute_q_out :: "matrix \<Rightarrow> complex \<Rightarrow> complex npval" where
  "compute_q_out M q' =
     (case M of Matrix A B C D \<Rightarrow>
        np_bind (np_cdivide (of_real B) (of_real C * q' + of_real D)) (\<lambda>t.
          Finite (of_real A * q' + t)))"

text \<open>
  \<open>np.sqrt(self.wavelength * np.abs(np.imag(self.q_out)) / np.pi) *
   np.sqrt(1 + (np.real(self.q_out) / np.imag(self.q_out))**2)\<close>.
\<close>

definition compute_waist_out :: "real \<Rightarrow> complex npval \<Rightarrow> real npval" where
  "compute_waist_out wl qo =
     np_bind qo (\<lambda>qv.
     np_bind (np_sqrt (wl * \<bar>Im qv\<bar> / pi)) (\<lambda>w0.
     np_bind (np_divide (Re qv) (Im qv)) (\<lambda>r.
     np_bind (np_sqrt (1 + r ^ 2)) (\<lambda>k.
     Finite (w0 * k)))))"

definition propagate_beam :: "OpticalSystem \<Rightarrow> OpticalSystem" where
  "propagate_beam s =
     (let beamMatrix = (z s, theta s);
          M = ABCD_matrix (optics s);
          beamMatrix' = matvec M beamMatrix;
          qo = compute_q_out M (q s)
      in s\<lparr>q_out := Some qo,
            waist_out := Some (compute_waist_out (wavelength s) qo),
            z_out := Some (fst beamMatrix'),
            theta_out := Some (snd beamMatrix')\<rparr>)"

text \<open>
  \<open>plotBeamProfile\<close>: the guard \<open>hasattr(self, 'waist_out')\<close> and the \<open>ValueError\<close> of
  its \<open>else\<close> branch. Of the plotting branch the model keeps the scalars the figure is drawn
  from, the end of the first axis \<open>10*waist_out\<close>, the Rayleigh range \<open>z_r\<close> and
  \<open>w_z2\<close>; the rendering itself is not modelled.
\<close>

record beam_profile =
  z1_max :: "real npval"
  z_r :: "real npval"
  w_z2 :: "real npval"

definition plotBeamProfile :: "OpticalSystem \<Rightarrow> error + beam_profile" where
  "plotBeamProfile s =
     (case waist_out s of
        Some w \<Rightarrow>
          Inr \<lparr>z1_max = np_bind w (\<lambda>x. Finite (10 * x)),
               z_r = np_bind w (\<lambda>x. np_divide (pi * x ^ 2) (wavelength s)),
               w_z2 = np_bind w (\<lambda>x. Finite (sqrt 2 * x))\<rparr>
      | None \<Rightarrow>
          Inl (ValueError
            ''Beam has not been propagated yet. Run the propagate_beam() method first.''))"

text \<open>Reading an attribute of the instance: an attribute never assigned is an \<open>AttributeError\<close>.\<close>

definition getattr :: "'a option \<Rightarrow> error + 'a" where
  "getattr a = (case a of None \<Rightarrow> Inl AttributeError | Some v \<Rightarrow> Inr v)"

section \<open>Clients\<close>

text \<open>
  A client's calls of the four element methods, in order; the first exception ends the
  sequence, as it would end the script.
\<close>

datatype call =
    FreeSpace real
  | Lens real real real real string
  | Mirror real string
  | Interface real real real

fun append_call :: "call \<Rightarrow> OpticalSystem \<Rightarrow> error + OpticalSystem" where
  "append_call (FreeSpace d) s = Inr (fst (freeSpace d True s))"
| "append_call (Lens f n1 n2 d type) s = lens f n1 n2 d type s"
| "append_call (Mirror radius type) s = mirror radius type s"
| "append_call (Interface n1 n2 d) s = interface n1 n2 d s"

fun append_calls :: "call list \<Rightarrow> OpticalSystem \<Rightarrow> error + OpticalSystem" where
  "append_calls [] s = Inr s"
| "append_calls (c # cs) s = bind_err (append_call c s) (append_calls cs)"

text \<open>
  The product the specification describes for a list of matrices: the head is the leftmost
  factor.
\<close>

fun matrix_product :: "matrix list \<Rightarrow> matrix" where
  "matrix_product [] = eye"
| "matrix_product (m # ms) = matmul m (matrix_product ms)"

text \<open>The bilinear transform \<open>(A q + B) / (C q + D)\<close> of the specification.\<close>

definition bilinear_transform :: "matrix \<Rightarrow> complex \<Rightarrow> complex" where
  "bilinear_transform M q' =
     (case M of Matrix A B C D \<Rightarrow>
        (of_real A * q' + of_real B) / (of_real C * q' + of_real D))"

section \<open>Double precision\<close>

text \<open>
  Where a claim compares two floats for equality, rounding decides, and the constructor and
  \<open>propagate_beam\<close> are modelled a second time with the arithmetic of IEEE 754 binary64:
  every operation computes the exact result of its operands and rounds it to the nearest
  double. A double is the real number it denotes; the two zeros are one. The model follows a
  computation as long as it stays finite: \<open>None\<close> is a result that overflowed, a numpy
  division by zero, the root of a negative number, or any value computed from one of these.
  \<open>waist**2\<close> and \<open>(...)**2\<close> are taken as the rounded square, \<open>np.sqrt\<close> as the rounded
  root, and \<open>np.matmul\<close> as rounding each product and each sum.
\<close>

text \<open>Rounding to the nearest integer, a tie to the even one.\<close>

definition round_half_even :: "real \<Rightarrow> int" where
  "round_half_even x =
     (let f = \<lfloor>x\<rfloor>; r = x - of_int f
      in if r < 1 / 2 then f else if 1 / 2 < r then f + 1 else if even f then f else f + 1)"

text \<open>
  The double nearest to a real number: 53 significant bits, the exponent of the last bit no
  lower than \<open>-1074\<close> (gradual underflow), \<open>None\<close> when the rounded magnitude reaches
  \<open>2^1024\<close> (overflow to \<open>inf\<close>).
\<close>

definition round_f64 :: "real \<Rightarrow> real option" where
  "round_f64 x =
     (if x = 0 then Some 0
      else let e = max (\<lfloor>log 2 \<bar>x\<bar>\<rfloor> - 52) (- 1074);
               y = of_int (round_half_even (x / 2 powi e)) * 2 powi e
           in if \<bar>y\<bar> < 2 ^ 1024 then Some y else None)"

text \<open>The operations of the hardware, on finite operands.\<close>

definition f64_add :: "real \<Rightarrow> real \<Rightarrow> real option" where
  "f64_add a b = round_f64 (a + b)"

definition f64_sub :: "real \<Rightarrow> real \<Rightarrow> real option" where
  "f64_sub a b = round_f64 (a - b)"

definition f64_mul :: "real \<Rightarrow> real \<Rightarrow> real option" where
  "f64_mul a b = round_f64 (a * b)"

definition f64_div :: "real \<Rightarrow> real \<Rightarrow> real option" where
  "f64_div a b = (if b = 0 then None else round_f64 (a / b))"

definition f64_sqrt :: "real \<Rightarrow> real option" where
  "f64_sqrt x = (if x < 0 then None else round_f64 (sqrt x))"

text \<open>\<open>np.pi\<close>, the double \<open>3.141592653589793\<close> (\<open>0x1.921fb54442d18p+1\<close>).\<close>

definition pi_f64 :: real where
  "pi_f64 = 884279719003555 / 2 ^ 48"

text \<open>An entry of \<open>np.matmul\<close> on 2x2 operands: two products and their sum, each rounded.\<close>

definition f64_dot :: "real \<Rightarrow> real \<Rightarrow> real \<Rightarrow> real \<Rightarrow> real option" where
  "f64_dot a x b y =
     Option.bind (f64_mul a x) (\<lambda>p. Option.bind (f64_mul b y) (\<lambda>p'. f64_add p p'))"

text \<open>
  The complex product and sum, as CPython (\<open>_Py_c_prod\<close>) and numpy compute them; a float
  operand is first made the complex number with imaginary part 0.
\<close>

definition c64_prod :: "complex \<Rightarrow> complex \<Rightarrow> complex option" where
  "c64_prod a b =
     Option.bind (f64_mul (Re a) (Re b)) (\<lambda>rr.
     Option.bind (f64_mul (Im a) (Im b)) (\<lambda>ii.
     Option.bind (f64_sub rr ii) (\<lambda>re.
     Option.bind (f64_mul (Re a) (Im b)) (\<lambda>ri.
     Option.bind (f64_mul (Im a) (Re b)) (\<lambda>ir.
     Option.bind (f64_add ri ir) (\<lambda>im.
     Some (Complex re im)))))))"

definition c64_sum :: "complex \<Rightarrow> complex \<Rightarrow> complex option" where
  "c64_sum a b =
     Option.bind (f64_add (Re a) (Re b)) (\<lambda>re.
     Option.bind (f64_add (Im a) (Im b)) (\<lambda>im.
     Some (Complex re im)))"

text \<open>
  The complex quotient of CPython (\<open>_Py_c_quot\<close>): a zero divisor raises
  \<open>ZeroDivisionError\<close>, also when the dividend is not finite.
\<close>

definition py_c_quot :: "complex option \<Rightarrow> complex \<Rightarrow> error + complex option" where
  "py_c_quot x b =
     (if \<bar>Im b\<bar> \<le> \<bar>Re b\<bar> then
        if \<bar>Re b\<bar> = 0 then Inl ZeroDivisionError
        else Inr (Option.bind x (\<lambda>a.
          Option.bind (f64_div (Im b) (Re b)) (\<lambda>ratio.
          Option.bind (f64_mul (Im b) ratio) (\<lambda>t.
          Option.bind (f64_add (Re b) t) (\<lambda>denom.
          Option.bind (f64_mul (Im a) ratio) (\<lambda>u.
          Option.bind (f64_add (Re a) u) (\<lambda>nr.
          Option.bind (f64_div nr denom) (\<lambda>re.
          Option.bind (f64_mul (Re a) ratio) (\<lambda>v.
          Option.bind (f64_sub (Im a) v) (\<lambda>ni.
          Option.bind (f64_div ni denom) (\<lambda>im.
          Some (Complex re im))))))))))))
      else Inr (Option.bind x (\<lambda>a.
          Option.bind (f64_div (Re b) (Im b)) (\<lambda>ratio.
          Option.bind (f64_mul (Re b) ratio) (\<lambda>t.
          Option.bind (f64_add t (Im b)) (\<lambda>denom.
          Option.bind (f64_mul (Re a) ratio) (\<lambda>u.
          Option.bind (f64_add u (Im a)) (\<lambda>nr.
          Option.bind (f64_div nr denom) (\<lambda>re.
          Option.bind (f64_mul (Im a) ratio) (\<lambda>v.
          Option.bind (f64_sub v (Re a)) (\<lambda>ni.
          Option.bind (f64_div ni denom) (\<lambda>im.
          Some (Complex re im)))))))))))))"

text \<open>
  The complex quotient of numpy's scalars: the same scheme, with the reciprocal \<open>scl\<close> of the
  denominator multiplied in; a zero divisor yields \<open>inf\<close> or \<open>nan\<close>.
\<close>

definition np_c_quot :: "complex \<Rightarrow> complex \<Rightarrow> complex option" where
  "np_c_quot a b =
     (if \<bar>Im b\<bar> \<le> \<bar>Re b\<bar> then
        if \<bar>Re b\<bar> = 0 \<and> \<bar>Im b\<bar> = 0 then None
        else
          Option.bind (f64_div (Im b) (Re b)) (\<lambda>rat.
          Option.bind (f64_mul (Im b) rat) (\<lambda>t.
          Option.bind (f64_add (Re b) t) (\<lambda>den.
          Option.bind (f64_div 1 den) (\<lambda>scl.
          Option.bind (f64_mul (Im a) rat) (\<lambda>u.
          Option.bind (f64_add (Re a) u) (\<lambda>nr.
          Option.bind (f64_mul nr scl) (\<lambda>re.
          Option.bind (f64_mul (Re a) rat) (\<lambda>v.
          Option.bind (f64_sub (Im a) v) (\<lambda>ni.
          Option.bind (f64_mul ni scl) (\<lambda>im.
          Some (Complex re im)))))))))))
      else
          Option.bind (f64_div (Re b) (Im b)) (\<lambda>rat.
          Option.bind (f64_mul (Re b) rat) (\<lambda>t.
          Option.bind (f64_add (Im b) t) (\<lambda>den.
          Option.bind (f64_div 1 den) (\<lambda>scl.
          Option.bind (f64_mul (Re a) rat) (\<lambda>u.
          Option.bind (f64_add u (Im a)) (\<lambda>nr.
          Option.bind (f64_mul nr scl) (\<lambda>re.
          Option.bind (f64_mul (Im a) rat) (\<lambda>v.
          Option.bind (f64_sub v (Re a)) (\<lambda>ni.
          Option.bind (f64_mul ni scl) (\<lambda>im.
          Some (Complex re im))))))))))))"

text \<open>\<open>waist**2\<close> on a Python float: the rounded square, \<open>OverflowError\<close> when it overflows.\<close>

definition py_pow2 :: "real \<Rightarrow> error + real" where
  "py_pow2 x = (case round_f64 (x * x) of None \<Rightarrow> Inl OverflowError | Some v \<Rightarrow> Inr v)"

text \<open>
  Line 20, \<open>self.q = 1j*np.pi*waist**2/wavelength\<close>, with the other assignments of
  \<open>__init__\<close>. \<open>Inr None\<close> is an instance whose \<open>q\<close> is not finite.
\<close>

definition OpticalSystem_init_f64 ::
  "real \<Rightarrow> real \<Rightarrow> real \<Rightarrow> real \<Rightarrow> real npval \<Rightarrow> error + OpticalSystem option" where
  "OpticalSystem_init_f64 wavelength' waist' z' theta' R =
     bind_err (py_pow2 waist') (\<lambda>w2.
     bind_err (py_c_quot
         (Option.bind (c64_prod (Complex 0 1) (Complex pi_f64 0)) (\<lambda>a.
            c64_prod a (Complex w2 0)))
         (Complex wavelength' 0)) (\<lambda>q'.
       Inr (map_option (\<lambda>v.
         \<lparr>q = v, wavelength = wavelength', waist = waist', theta = theta', z = z',
          optics = [], q_out = None, waist_out = None, z_out = None, theta_out = None\<rparr>) q')))"

text \<open>Lines 83 to 88: the matrix loop and the ray vector.\<close>

fun matmul_f64 :: "matrix \<Rightarrow> matrix \<Rightarrow> matrix option" where
  "matmul_f64 (Matrix a b c d) (Matrix a' b' c' d') =
     Option.bind (f64_dot a a' b c') (\<lambda>m00.
     Option.bind (f64_dot a b' b d') (\<lambda>m01.
     Option.bind (f64_dot c a' d c') (\<lambda>m10.
     Option.bind (f64_dot c b' d d') (\<lambda>m11.
     Some (Matrix m00 m01 m10 m11)))))"

fun matvec_f64 :: "matrix \<Rightarrow> real \<times> real \<Rightarrow> real option \<times> real option" where
  "matvec_f64 (Matrix a b c d) (x, y) = (f64_dot a x b y, f64_dot c x d y)"

definition ABCD_matrix_f64 :: "matrix list \<Rightarrow> matrix option" where
  "ABCD_matrix_f64 os =
     fold (\<lambda>element M. Option.bind M (\<lambda>m. matmul_f64 m element)) (rev os) (Some eye)"

text \<open>
  Line 90, \<open>A*self.q + B/(C*self.q + D)\<close>: \<open>A\<close>, \<open>B\<close>, \<open>C\<close>, \<open>D\<close> are numpy doubles, so
  the operations are those of numpy's complex scalars.
\<close>

definition compute_q_out_f64 :: "matrix \<Rightarrow> complex \<Rightarrow> complex option" where
  "compute_q_out_f64 M q' =
     (case M of Matrix A B C D \<Rightarrow>
        Option.bind (c64_prod (Complex A 0) q') (\<lambda>aq.
        Option.bind (c64_prod (Complex C 0) q') (\<lambda>cq.
        Option.bind (c64_sum cq (Complex D 0)) (\<lambda>den.
        Option.bind (np_c_quot (Complex B 0) den) (\<lambda>t.
        c64_sum aq t)))))"

text \<open>Line 98, operation by operation.\<close>

definition compute_waist_out_f64 :: "real \<Rightarrow> complex \<Rightarrow> real option" where
  "compute_waist_out_f64 wl qo =
     Option.bind (f64_mul wl \<bar>Im qo\<bar>) (\<lambda>a.
     Option.bind (f64_div a pi_f64) (\<lambda>b.
     Option.bind (f64_sqrt b) (\<lambda>w0.
     Option.bind (f64_div (Re qo) (Im qo)) (\<lambda>r.
     Option.bind (f64_mul r r) (\<lambda>r2.
     Option.bind (f64_add 1 r2) (\<lambda>d.
     Option.bind (f64_sqrt d) (\<lambda>k.
     f64_mul w0 k)))))))"

text \<open>The four values \<open>propagate_beam\<close> assigns, each \<open>None\<close> when it is not finite.\<close>

record propagated =
  q_out_f64 :: "complex option"
  waist_out_f64 :: "real option"
  z_out_f64 :: "real option"
  theta_out_f64 :: "real option"

definition propagate_beam_f64 :: "OpticalSystem \<Rightarrow> propagated" where
  "propagate_beam_f64 s =
     (let M = ABCD_matrix_f64 (optics s);
          beamMatrix' = (case M of None \<Rightarrow> (None, None)
                         | Some m \<Rightarrow> matvec_f64 m (z s, theta s));
          qo = Option.bind M (\<lambda>m. compute_q_out_f64 m (q s))
      in \<lparr>q_out_f64 = qo,
          waist_out_f64 = Option.bind qo (compute_waist_out_f64 (wavelength s)),
          z_out_f64 = fst beamMatrix',
          theta_out_f64 = snd beamMatrix'\<rparr>)"

section \<open>Matrix algebra\<close>

lemma matmul_assoc: "matmul (matmul a b) c = matmul a (matmul b c)"
  by (cases a; cases b; cases c) (simp add: algebra_simps)

lemma matmul_eye_left: "matmul eye a = a"
  by (cases a) (simp add: eye_def)

lemma matmul_eye_right: "matmul a eye = a"
  by (cases a) (simp add: eye_def)

lemma matvec_matmul: "matvec (matmul a b) v = matvec a (matvec b v)"
  by (cases a; cases b; cases v) (simp add: algebra_simps)

lemma matvec_eye: "matvec eye v = v"
  by (cases v) (simp add: eye_def)

lemma ABCD_matrix_Nil: "ABCD_matrix [] = eye"
  by (simp add: ABCD_matrix_def)

lemma ABCD_matrix_Cons: "ABCD_matrix (e # es) = matmul (ABCD_matrix es) e"
  by (simp add: ABCD_matrix_def foldr_conv_fold [symmetric])

lemma matrix_product_append:
  "matrix_product (xs @ ys) = matmul (matrix_product xs) (matrix_product ys)"
  by (induction xs) (simp_all add: matmul_eye_left matmul_assoc)

lemma ABCD_matrix_product: "ABCD_matrix es = matrix_product (rev es)"
  by (induction es)
     (simp_all add: ABCD_matrix_Nil ABCD_matrix_Cons matrix_product_append matmul_eye_right)

lemma ABCD_matrix_snoc: "ABCD_matrix (es @ [e]) = matmul e (ABCD_matrix es)"
  by (simp add: ABCD_matrix_product)

lemma ABCD_matrix_append: "ABCD_matrix (xs @ ys) = matmul (ABCD_matrix ys) (ABCD_matrix xs)"
  by (simp add: ABCD_matrix_product matrix_product_append)

section \<open>What the methods compute\<close>

lemma bind_err_Inr: "bind_err r f = Inr y \<longleftrightarrow> (\<exists>v. r = Inr v \<and> f v = Inr y)"
  by (cases r) (simp_all add: bind_err_def)

lemma init_ok:
  "wl \<noteq> 0 \<Longrightarrow> OpticalSystem_init wl w z0 th R =
     Inr \<lparr>q = \<i> * of_real pi * of_real (w ^ 2) / of_real wl, wavelength = wl, waist = w,
          theta = th, z = z0, optics = [], q_out = None, waist_out = None, z_out = None,
          theta_out = None\<rparr>"
  by (simp add: OpticalSystem_init_def py_cdiv_def bind_err_def)

lemma init_fields:
  assumes "OpticalSystem_init wl w z0 th R = Inr s"
  shows "optics s = []" "q_out s = None" "waist_out s = None" "z_out s = None"
    "theta_out s = None"
  using assms
  by (auto simp: OpticalSystem_init_def bind_err_def py_cdiv_def split: if_splits)

lemma init_q_parts:
  "Re (\<i> * of_real pi * of_real (w ^ 2) / of_real wl) = 0"
  "Im (\<i> * of_real pi * of_real (w ^ 2) / of_real wl) = pi * w ^ 2 / wl"
  by (simp_all add: Re_divide_of_real Im_divide_of_real)

text \<open>
  In exact arithmetic the three factors of \<open>interface\<close> multiply to a translation: the two
  index ratios cancel in the lower right entry.
\<close>

lemma interface_matrix:
  "n1 \<noteq> 0 \<Longrightarrow> n2 \<noteq> 0 \<Longrightarrow>
   interface n1 n2 d s = Inr (s\<lparr>optics := optics s @ [Matrix 1 (d * (n2 / n1)) 0 1]\<rparr>)"
  by (simp add: interface_def py_div_def bind_err_def freeSpace_def matmul_ret_def append_ret_def)

text \<open>With a lower row \<open>0 1\<close> the divisor of \<open>q_out\<close> is 1.\<close>

lemma compute_q_out_bottom_row:
  "compute_q_out (Matrix A B 0 1) q' = Finite (of_real A * q' + of_real B)"
  by (simp add: compute_q_out_def np_cdivide_def np_bind_def)

text \<open>A beam at its waist, \<open>q = i pi w^2 / wl\<close>, gets its own waist back.\<close>

lemma waist_identity:
  assumes "0 < wl" "0 < w" "Re qv = 0" "Im qv = pi * w ^ 2 / wl"
  shows "compute_waist_out wl (Finite qv) = Finite w"
proof -
  have pos: "0 < pi * w ^ 2 / wl" using assms by simp
  have "wl * \<bar>pi * w ^ 2 / wl\<bar> / pi = w ^ 2" using assms by simp
  then have sq: "sqrt (wl * \<bar>pi * w ^ 2 / wl\<bar> / pi) = w" using assms by simp
  show ?thesis
    unfolding compute_waist_out_def np_bind_def npval.case assms(3,4)
    using assms(1,2) pos sq by (simp add: np_sqrt_def np_divide_def)
qed

subsection \<open>The element methods leave the output attributes alone\<close>

lemma append_ret_outputs:
  assumes "append_ret s x = Inr s'"
  shows "q_out s' = q_out s \<and> waist_out s' = waist_out s \<and> z_out s' = z_out s
    \<and> theta_out s' = theta_out s"
  using assms by (auto simp: append_ret_def split: option.splits)

lemma lens_outputs:
  assumes "lens f n1 n2 d type s = Inr s'"
  shows "q_out s' = q_out s \<and> waist_out s' = waist_out s \<and> z_out s' = z_out s
    \<and> theta_out s' = theta_out s"
proof (cases "type = ''thin''")
  case True
  with assms show ?thesis
    by (auto simp: lens_def bind_err_Inr)
next
  case False
  with assms have "type = ''thick''"
    by (auto simp: lens_def split: if_splits)
  with assms False obtain m where "append_ret s m = Inr s'"
    by (auto simp: lens_def bind_err_Inr freeSpace_def)
  then show ?thesis by (rule append_ret_outputs)
qed

lemma mirror_outputs:
  assumes "mirror radius type s = Inr s'"
  shows "q_out s' = q_out s \<and> waist_out s' = waist_out s \<and> z_out s' = z_out s
    \<and> theta_out s' = theta_out s"
  using assms by (auto simp: mirror_def bind_err_Inr split: if_splits)

lemma interface_outputs:
  assumes "interface n1 n2 d s = Inr s'"
  shows "q_out s' = q_out s \<and> waist_out s' = waist_out s \<and> z_out s' = z_out s
    \<and> theta_out s' = theta_out s"
proof -
  from assms obtain m where "append_ret s m = Inr s'"
    by (auto simp: interface_def bind_err_Inr freeSpace_def Let_def)
  then show ?thesis by (rule append_ret_outputs)
qed

lemma append_call_outputs:
  assumes "append_call c s = Inr s'"
  shows "q_out s' = q_out s \<and> waist_out s' = waist_out s \<and> z_out s' = z_out s
    \<and> theta_out s' = theta_out s"
proof (cases c)
  case (FreeSpace d)
  with assms show ?thesis by (auto simp: freeSpace_def)
next
  case (Lens f n1 n2 d type)
  with assms show ?thesis using lens_outputs by simp
next
  case (Mirror radius type)
  with assms show ?thesis using mirror_outputs by simp
next
  case (Interface n1 n2 d)
  with assms show ?thesis using interface_outputs by simp
qed

lemma append_calls_outputs:
  "append_calls cs s = Inr s' \<Longrightarrow>
   q_out s' = q_out s \<and> waist_out s' = waist_out s \<and> z_out s' = z_out s
    \<and> theta_out s' = theta_out s"
proof (induction cs arbitrary: s)
  case Nil
  then show ?case by simp
next
  case (Cons c cs)
  then obtain s1 where 1: "append_call c s = Inr s1" and 2: "append_calls cs s1 = Inr s'"
    by (auto simp: bind_err_Inr)
  from append_call_outputs [OF 1] Cons.IH [OF 2] show ?case by simp
qed

subsection \<open>An empty element list in exact arithmetic\<close>

text \<open>
  Over the real numbers a beam constructed with positive wavelength and waist comes back
  from \<open>propagate_beam\<close> unchanged, the waist included: \<open>sqrt (wl * (pi * w^2 / wl) / pi) = w\<close>.
\<close>

lemma identity_propagation_exact:
  assumes "0 < wl" "0 < w"
  shows "\<exists>s. OpticalSystem_init wl w z0 th R = Inr s \<and> optics s = []
           \<and> z s = z0 \<and> theta s = th \<and> waist s = w
           \<and> z_out (propagate_beam s) = Some z0
           \<and> theta_out (propagate_beam s) = Some th
           \<and> q_out (propagate_beam s) = Some (Finite (q s))
           \<and> waist_out (propagate_beam s) = Some (Finite w)"
proof -
  let ?q = "\<i> * of_real pi * of_real (w ^ 2) / of_real wl"
  let ?s = "\<lparr>q = ?q, wavelength = wl, waist = w,
          theta = th, z = z0, optics = [], q_out = None, waist_out = None, z_out = None,
          theta_out = None\<rparr>"
  have i: "OpticalSystem_init wl w z0 th R = Inr ?s"
    using assms(1) by (intro init_ok) simp
  have qo: "compute_q_out (ABCD_matrix (optics ?s)) (q ?s) = Finite ?q"
    by (simp add: ABCD_matrix_Nil eye_def compute_q_out_bottom_row)
  have wo: "compute_waist_out wl (Finite ?q) = Finite w"
    using assms init_q_parts by (intro waist_identity)
  have p: "propagate_beam ?s = ?s\<lparr>q_out := Some (Finite ?q), waist_out := Some (Finite w),
      z_out := Some z0, theta_out := Some th\<rparr>"
    unfolding propagate_beam_def Let_def qo
    by (simp add: wo ABCD_matrix_Nil eye_def del: of_real_power)
  show ?thesis
    unfolding i by (intro exI [of _ ?s]) (simp add: p del: of_real_power)
qed

section \<open>Rounding\<close>

lemma round_half_even_int [simp]: "round_half_even (of_int n) = n"
  by (simp add: round_half_even_def)

lemma round_half_even_eq:
  assumes "of_int m - 1 / 2 < x" "x < of_int m + 1 / 2"
  shows "round_half_even x = m"
proof -
  let ?f = "\<lfloor>x\<rfloor>"
  have "x < of_int (m + 1)" using assms(2) by simp
  then have u: "?f < m + 1" by (simp only: floor_less_iff)
  have "of_int (m - 1) \<le> x" using assms(1) by simp
  then have l: "m - 1 \<le> ?f" by (simp only: le_floor_iff)
  show ?thesis
  proof (cases "?f = m")
    case True
    with assms show ?thesis by (simp add: round_half_even_def Let_def)
  next
    case False
    with u l have e: "?f = m - 1" by linarith
    with assms have "1 / 2 < x - of_int ?f" by simp
    with e show ?thesis by (simp add: round_half_even_def Let_def)
  qed
qed

lemma floor_log2_eq:
  assumes "2 powi k \<le> x" "x < 2 powi (k + 1)"
  shows "\<lfloor>log 2 x\<rfloor> = k"
proof -
  have "(0::real) < 2 powi k" by simp
  with assms(1) have pos: "0 < x" by linarith
  have "(2::real) powr of_int k = 2 powi k" "(2::real) powr of_int (k + 1) = 2 powi (k + 1)"
    by (simp_all only: powr_real_of_int' [of 2, simplified])
  then have "2 powr of_int k \<le> x" "x < 2 powr (of_int k + 1)"
    using assms by simp_all
  with pos show ?thesis
    by (simp add: floor_log_eq_powr_iff)
qed

lemma round_f64_eval:
  assumes "2 powi k \<le> \<bar>x\<bar>" "\<bar>x\<bar> < 2 powi (k + 1)"
    and "e = max (k - 52) (- 1074)"
    and "of_int m - 1 / 2 < x / 2 powi e" "x / 2 powi e < of_int m + 1 / 2"
    and "\<bar>of_int m * 2 powi e\<bar> < (2::real) ^ 1024"
  shows "round_f64 x = Some (of_int m * 2 powi e)"
proof -
  have "(0::real) < 2 powi k" by simp
  with assms(1) have "x \<noteq> 0" by linarith
  moreover have "\<lfloor>log 2 \<bar>x\<bar>\<rfloor> = k" using assms(1,2) by (rule floor_log2_eq)
  moreover have "round_half_even (x / 2 powi e) = m" using assms(4,5) by (rule round_half_even_eq)
  ultimately show ?thesis
    using assms(3,6) by (simp add: round_f64_def Let_def)
qed

lemma round_f64_0 [simp]: "round_f64 0 = Some 0"
  by (simp add: round_f64_def)

lemma round_f64_1 [simp]: "round_f64 1 = Some 1"
  using round_f64_eval [of 0 1 "- 52" "2 ^ 52"] by simp

lemma log2_bounds:
  assumes "x \<noteq> 0"
  shows "2 powi \<lfloor>log 2 \<bar>x\<bar>\<rfloor> \<le> \<bar>x\<bar>" "\<bar>x\<bar> < 2 powi (\<lfloor>log 2 \<bar>x\<bar>\<rfloor> + 1)"
proof -
  have pos: "0 < \<bar>x\<bar>" using assms by simp
  have "(2::real) powr of_int k = 2 powi k" for k
    by (simp only: powr_real_of_int' [of 2, simplified])
  moreover have "2 powr of_int \<lfloor>log 2 \<bar>x\<bar>\<rfloor> \<le> \<bar>x\<bar> \<and> \<bar>x\<bar> < 2 powr (of_int \<lfloor>log 2 \<bar>x\<bar>\<rfloor> + 1)"
    using floor_log_eq_powr_iff [OF pos, of 2 "\<lfloor>log 2 \<bar>x\<bar>\<rfloor>"] by simp
  ultimately show "2 powi \<lfloor>log 2 \<bar>x\<bar>\<rfloor> \<le> \<bar>x\<bar>" "\<bar>x\<bar> < 2 powi (\<lfloor>log 2 \<bar>x\<bar>\<rfloor> + 1)"
    by (metis of_int_add of_int_1)+
qed

lemma log2_ge:
  assumes "2 powi a \<le> \<bar>x\<bar>"
  shows "a \<le> \<lfloor>log 2 \<bar>x\<bar>\<rfloor>"
proof (rule ccontr)
  assume "\<not> a \<le> \<lfloor>log 2 \<bar>x\<bar>\<rfloor>"
  then have l: "\<lfloor>log 2 \<bar>x\<bar>\<rfloor> + 1 \<le> a" by simp
  have "(0::real) < 2 powi a" by simp
  with assms have "x \<noteq> 0" by linarith
  then have "\<bar>x\<bar> < 2 powi (\<lfloor>log 2 \<bar>x\<bar>\<rfloor> + 1)" by (rule log2_bounds)
  also have "\<dots> \<le> 2 powi a" using l by (intro power_int_increasing) simp_all
  finally show False using assms by simp
qed

lemma log2_less:
  assumes "x \<noteq> 0" "\<bar>x\<bar> < 2 powi b"
  shows "\<lfloor>log 2 \<bar>x\<bar>\<rfloor> < b"
proof (rule ccontr)
  assume "\<not> \<lfloor>log 2 \<bar>x\<bar>\<rfloor> < b"
  then have "(2::real) powi b \<le> 2 powi \<lfloor>log 2 \<bar>x\<bar>\<rfloor>"
    by (intro power_int_increasing) simp_all
  also have "\<dots> \<le> \<bar>x\<bar>" using assms(1) by (rule log2_bounds)
  finally show False using assms(2) by simp
qed

lemma round_half_even_bounds:
  "\<lfloor>x\<rfloor> \<le> round_half_even x" "round_half_even x \<le> \<lfloor>x\<rfloor> + 1"
  by (simp_all add: round_half_even_def Let_def)

lemma round_half_even_error: "\<bar>of_int (round_half_even x) - x\<bar> \<le> 1 / 2"
proof -
  have "of_int \<lfloor>x\<rfloor> \<le> x" "x < of_int \<lfloor>x\<rfloor> + 1" by linarith+
  then show ?thesis
    by (auto simp: round_half_even_def Let_def)
qed

text \<open>A multiple of the unit in the last place of its own binade is a double.\<close>

lemma round_f64_fix:
  assumes "y = of_int n * 2 powi (max (\<lfloor>log 2 \<bar>y\<bar>\<rfloor> - 52) (- 1074))" "\<bar>y\<bar> < 2 ^ 1024"
  shows "round_f64 y = Some y"
proof (cases "y = 0")
  case True
  then show ?thesis by simp
next
  case False
  define e where "e = max (\<lfloor>log 2 \<bar>y\<bar>\<rfloor> - 52) (- 1074)"
  have ye: "y = of_int n * 2 powi e"
    using assms(1) unfolding e_def .
  have "y / 2 powi e = of_int n"
    by (subst ye) simp
  then have "of_int (round_half_even (y / 2 powi e)) * 2 powi e = y"
    using ye by simp
  then show ?thesis
    using False assms(2) by (simp add: round_f64_def Let_def e_def)
qed

text \<open>A rounded value is a double: rounding it again changes nothing.\<close>

lemma round_f64_idem:
  assumes "round_f64 x = Some y"
  shows "round_f64 y = Some y"
proof (cases "y = 0")
  case True
  then show ?thesis by simp
next
  case False
  then have x0: "x \<noteq> 0" using assms by (auto simp: round_f64_def)
  define k where "k = \<lfloor>log 2 \<bar>x\<bar>\<rfloor>"
  define e where "e = max (k - 52) (- 1074)"
  define r where "r = round_half_even (x / 2 powi e)"
  have y: "y = of_int r * 2 powi e" and fin: "\<bar>y\<bar> < 2 ^ 1024"
    using assms x0 by (auto simp: round_f64_def Let_def k_def e_def r_def split: if_splits)
  have r0: "r \<noteq> 0" using False y by auto
  have e_lo: "- 1074 \<le> e" and e_k: "k + 1 - e \<le> 53" by (simp_all add: e_def)
  have "\<bar>x\<bar> < 2 powi (k + 1)" unfolding k_def using x0 by (rule log2_bounds)
  then have "\<bar>x / 2 powi e\<bar> < 2 powi (k + 1) / 2 powi e"
    by (simp add: divide_strict_right_mono)
  also have "\<dots> = 2 powi (k + 1 - e)" by (simp add: power_int_diff)
  also have "\<dots> \<le> 2 powi 53" using e_k by (intro power_int_increasing) simp_all
  finally have m: "\<bar>x / 2 powi e\<bar> < 2 ^ 53" by simp
  then have "x / 2 powi e < 2 ^ 53" "- (2 ^ 53) \<le> x / 2 powi e" by linarith+
  then have "x / 2 powi e < of_int (2 ^ 53)" "of_int (- (2 ^ 53)) \<le> x / 2 powi e" by simp_all
  then have "\<lfloor>x / 2 powi e\<rfloor> < 2 ^ 53" "- (2 ^ 53) \<le> \<lfloor>x / 2 powi e\<rfloor>"
    by (simp_all only: floor_less_iff le_floor_iff)
  with round_half_even_bounds [of "x / 2 powi e"] have r: "\<bar>r\<bar> \<le> 2 ^ 53"
    unfolding r_def by linarith
  define e' where "e' = max (\<lfloor>log 2 \<bar>y\<bar>\<rfloor> - 52) (- 1074)"
  have absy: "\<bar>y\<bar> = of_int \<bar>r\<bar> * 2 powi e" by (simp add: y abs_mult)
  have "\<exists>n. y = of_int n * 2 powi e'"
  proof (cases "\<bar>r\<bar> = 2 ^ 53")
    case True
    then have "\<bar>y\<bar> = 2 powi (e + 53)" by (simp add: absy power_int_add)
    then have "2 powi (e + 53) \<le> \<bar>y\<bar>" "\<bar>y\<bar> < 2 powi (e + 53 + 1)"
      by (simp_all add: power_int_add)
    then have "\<lfloor>log 2 \<bar>y\<bar>\<rfloor> = e + 53" by (rule floor_log2_eq)
    then have e': "e' = e + 1" using e_lo by (simp add: e'_def)
    from True have "r = 2 ^ 53 \<or> r = - (2 ^ 53)" by linarith
    then have "even r" by auto
    then have "(of_int r :: real) = of_int (r div 2) * 2" by (metis of_int_mult of_int_numeral dvd_div_mult_self)
    then have "y = of_int (r div 2) * 2 powi e'"
      by (simp add: y e' power_int_add)
    then show ?thesis ..
  next
    case False
    with r have "\<bar>r\<bar> < 2 ^ 53" by simp
    then have "(of_int \<bar>r\<bar> :: real) < 2 ^ 53" by (metis of_int_less_iff of_int_numeral of_int_power)
    then have "\<bar>y\<bar> < 2 powi (e + 53)" by (simp add: absy power_int_add)
    with \<open>y \<noteq> 0\<close> have "\<lfloor>log 2 \<bar>y\<bar>\<rfloor> < e + 53" by (rule log2_less)
    with e_lo have le: "e' \<le> e" by (simp add: e'_def)
    have "(2::real) powi e = 2 powi (e - e') * 2 powi e'" by (simp flip: power_int_add)
    also have "(2::real) powi (e - e') = 2 ^ nat (e - e')" using le by (simp add: power_int_def)
    finally have "y = of_int (r * 2 ^ nat (e - e')) * 2 powi e'" by (simp add: y)
    then show ?thesis ..
  qed
  then obtain n where "y = of_int n * 2 powi e'" ..
  then show ?thesis unfolding e'_def using fin by (rule round_f64_fix)
qed


lemma f64_sqrt_eval:
  assumes "(2 powi k)\<^sup>2 \<le> x" "x < (2 powi (k + 1))\<^sup>2"
    and "e = max (k - 52) (- 1074)" "0 < m"
    and "(of_int m - 1 / 2)\<^sup>2 < x / (2 powi e)\<^sup>2" "x / (2 powi e)\<^sup>2 < (of_int m + 1 / 2)\<^sup>2"
    and "\<bar>of_int m * 2 powi e\<bar> < (2::real) ^ 1024"
  shows "f64_sqrt x = Some (of_int m * 2 powi e)"
proof -
  have "(0::real) \<le> (2 powi k)\<^sup>2" by simp
  with assms(1) have x0: "0 \<le> x" by linarith
  have s: "sqrt x / 2 powi e = sqrt (x / (2 powi e)\<^sup>2)"
    by (simp add: real_sqrt_divide)
  have m: "(0::real) \<le> of_int m - 1 / 2" using assms(4) by linarith
  have 1: "2 powi k \<le> \<bar>sqrt x\<bar>"
    using assms(1) x0 by (simp add: real_le_rsqrt)
  have 2: "\<bar>sqrt x\<bar> < 2 powi (k + 1)"
    using assms(2) x0 by (simp add: real_less_lsqrt)
  have 3: "of_int m - 1 / 2 < sqrt x / 2 powi e"
    unfolding s using assms(5) by (rule real_less_rsqrt)
  have 4: "sqrt x / 2 powi e < of_int m + 1 / 2"
    unfolding s using assms(6) m by (intro real_less_lsqrt) simp_all
  from round_f64_eval [OF 1 2 assms(3) 3 4 assms(7)] x0 show ?thesis
    by (simp add: f64_sqrt_def)
qed

lemma f64_simps [simp]:
  "f64_mul 0 x = Some 0" "f64_mul x 0 = Some 0"
  "f64_mul 1 x = round_f64 x" "f64_mul x 1 = round_f64 x"
  "f64_add 0 x = round_f64 x" "f64_add x 0 = round_f64 x"
  "f64_sub x 0 = round_f64 x"
  "x \<noteq> 0 \<Longrightarrow> f64_div 0 x = Some 0"
  "f64_div x 1 = round_f64 x"
  "f64_sqrt 1 = Some 1"
  by (simp_all add: f64_mul_def f64_add_def f64_sub_def f64_div_def f64_sqrt_def)

lemma pi_f64_double: "round_f64 pi_f64 = Some pi_f64"
  unfolding pi_f64_def
  using round_f64_eval [of 1 "884279719003555 / 2 ^ 48" "- 51" 7074237752028440]
  by simp

text \<open>The constructor, rounding by rounding.\<close>

lemma init_f64_value:
  assumes "round_f64 (w * w) = Some t1" "round_f64 (pi_f64 * t1) = Some t2"
    and "wl \<noteq> 0" "round_f64 wl = Some wl" "round_f64 (t2 / wl) = Some t3"
  shows "OpticalSystem_init_f64 wl w z0 th R =
     Inr (Some \<lparr>q = Complex 0 t3, wavelength = wl, waist = w, theta = th, z = z0,
            optics = [], q_out = None, waist_out = None, z_out = None, theta_out = None\<rparr>)"
proof -
  have t2: "round_f64 t2 = Some t2" using assms(2) by (rule round_f64_idem)
  have a: "c64_prod (Complex 0 1) (Complex pi_f64 0) = Some (Complex 0 pi_f64)"
    by (simp add: c64_prod_def pi_f64_double)
  have b: "c64_prod (Complex 0 pi_f64) (Complex t1 0) = Some (Complex 0 t2)"
    by (simp add: c64_prod_def f64_mul_def [of pi_f64 t1] assms(2) t2)
  have c: "py_c_quot (Some (Complex 0 t2)) (Complex wl 0) = Inr (Some (Complex 0 t3))"
    using assms(3) by (simp add: py_c_quot_def assms(4) t2 f64_div_def [of t2 wl] assms(5))
  show ?thesis
    by (simp add: OpticalSystem_init_f64_def py_pow2_def assms(1) bind_err_def a b c)
qed

text \<open>\<open>propagate_beam\<close> on an empty element list, rounding by rounding.\<close>

lemma propagate_beam_f64_empty:
  assumes "optics s = []" "q s = Complex 0 t3" "round_f64 t3 = Some t3" "t3 \<noteq> 0"
    and "round_f64 (z s) = Some (z s)" "round_f64 (theta s) = Some (theta s)"
    and "round_f64 (wavelength s * \<bar>t3\<bar>) = Some t4" "round_f64 (t4 / pi_f64) = Some t5"
    and "0 \<le> t5" "round_f64 (sqrt t5) = Some t6"
  shows "propagate_beam_f64 s =
     \<lparr>q_out_f64 = Some (Complex 0 t3), waist_out_f64 = Some t6,
      z_out_f64 = Some (z s), theta_out_f64 = Some (theta s)\<rparr>"
proof -
  have M: "ABCD_matrix_f64 (optics s) = Some (Matrix 1 0 0 1)"
    by (simp add: assms(1) ABCD_matrix_f64_def eye_def)
  have q0: "np_c_quot (Complex 0 0) (Complex 1 0) = Some (Complex 0 0)"
    by (simp add: np_c_quot_def)
  have qo: "compute_q_out_f64 (Matrix 1 0 0 1) (q s) = Some (Complex 0 t3)"
    by (simp add: compute_q_out_f64_def assms(2) c64_prod_def c64_sum_def assms(3) q0)
  have t6: "round_f64 t6 = Some t6" using assms(10) by (rule round_f64_idem)
  have pi0: "pi_f64 \<noteq> 0" by (simp add: pi_f64_def)
  have wo: "compute_waist_out_f64 (wavelength s) (Complex 0 t3) = Some t6"
    using assms(4,9) pi0
    by (simp add: compute_waist_out_f64_def f64_mul_def [of "wavelength s"] assms(7)
        f64_div_def [of t4] assms(8) f64_sqrt_def [of t5] assms(10) t6)
  show ?thesis
    by (simp add: propagate_beam_f64_def Let_def M qo wo f64_dot_def assms(5,6))
qed

subsection \<open>The error of a rounding\<close>

text \<open>In the normal range a rounding moves a number by at most \<open>2^-53\<close> of itself.\<close>

lemma round_f64_rel:
  assumes "1 / 2 ^ 1022 \<le> \<bar>x\<bar>" "\<bar>x\<bar> < 2 ^ 1023"
  shows "\<exists>y. round_f64 x = Some y \<and> \<bar>y - x\<bar> \<le> \<bar>x\<bar> / 2 ^ 53"
proof -
  have x0: "x \<noteq> 0" using assms(1) by auto
  define k where "k = \<lfloor>log 2 \<bar>x\<bar>\<rfloor>"
  define e where "e = k - 52"
  define r where "r = round_half_even (x / 2 powi e)"
  define y :: real where "y = of_int r * 2 powi e"
  have "2 powi (- 1022) \<le> \<bar>x\<bar>" using assms(1) by (simp add: power_int_minus_divide)
  then have k_lo: "- 1022 \<le> k" unfolding k_def by (rule log2_ge)
  then have e: "max (k - 52) (- 1074) = e" by (simp add: e_def)
  have kx: "2 powi k \<le> \<bar>x\<bar>" unfolding k_def using x0 by (rule log2_bounds)
  have pe: "(2::real) powi e = 2 powi k / 2 ^ 52" by (simp add: e_def power_int_diff)
  have "y - x = (of_int r - x / 2 powi e) * 2 powi e"
    by (simp add: y_def algebra_simps)
  then have "\<bar>y - x\<bar> = \<bar>of_int r - x / 2 powi e\<bar> * 2 powi e"
    by (simp add: abs_mult)
  also have "\<dots> \<le> 1 / 2 * 2 powi e"
    unfolding r_def by (intro mult_right_mono round_half_even_error) simp
  also have "\<dots> = 2 powi k / 2 ^ 53" by (simp add: pe)
  also have "\<dots> \<le> \<bar>x\<bar> / 2 ^ 53" using kx by (simp add: divide_right_mono)
  finally have err: "\<bar>y - x\<bar> \<le> \<bar>x\<bar> / 2 ^ 53" .
  have "\<bar>x\<bar> / 2 ^ 53 \<le> \<bar>x\<bar>" by (simp add: field_simps)
  with err have "\<bar>y\<bar> \<le> \<bar>x\<bar> + \<bar>x\<bar>" by linarith
  also have "\<dots> < 2 ^ 1023 + 2 ^ 1023" using assms(2) by linarith
  finally have fin: "\<bar>y\<bar> < 2 ^ 1024" by simp
  have "round_f64 x = Some y"
    using x0 fin by (simp add: round_f64_def Let_def k_def [symmetric] e r_def [symmetric] y_def [symmetric])
  with err show ?thesis by blast
qed

lemma ulp_powers:
  assumes "n \<le> 7"
  shows "(1 / 2 :: real) \<le> (1 - 1 / 2 ^ 53) ^ n" "(1 + 1 / 2 ^ 53 :: real) ^ n \<le> 2"
proof -
  have "(1 / 2 :: real) \<le> (1 - 1 / 2 ^ 53) ^ 7" by (simp add: power_divide)
  also have "\<dots> \<le> (1 - 1 / 2 ^ 53) ^ n" using assms by (intro power_decreasing) simp_all
  finally show "(1 / 2 :: real) \<le> (1 - 1 / 2 ^ 53) ^ n" .
  have "(1 + 1 / 2 ^ 53 :: real) ^ n \<le> (1 + 1 / 2 ^ 53) ^ 7" using assms by (intro power_increasing) simp_all
  also have "\<dots> \<le> 2" by (simp add: power_divide)
  finally show "(1 + 1 / 2 ^ 53 :: real) ^ n \<le> 2" .
qed

text \<open>
  One rounding of a positive number known up to \<open>n\<close> earlier roundings: \<open>c\<close> is the exact
  value.
\<close>

lemma round_f64_step:
  assumes "lo = 1 - 1 / 2 ^ 53" "hi = 1 + 1 / 2 ^ 53"
    and "1 / 2 ^ 1000 \<le> c" "c \<le> 2 ^ 1000" "n \<le> 6" "m = Suc n"
    and "c * lo ^ n \<le> x" "x \<le> c * hi ^ n"
  shows "\<exists>y. round_f64 x = Some y \<and> c * lo ^ m \<le> y \<and> y \<le> c * hi ^ m"
proof -
  have "(0::real) < 1 / 2 ^ 1000" by simp
  with assms(3) have c0: "0 < c" by linarith
  have n7: "n \<le> 7" using assms(5) by simp
  have lo0: "0 \<le> lo" and hi0: "0 \<le> hi" by (simp_all add: assms(1,2))
  have "c * (1 / 2) \<le> c * lo ^ n"
    unfolding assms(1) using c0 ulp_powers(1) [OF n7] by (intro mult_left_mono) simp_all
  with assms(7) have lo: "c / 2 \<le> x" by simp
  have "c * hi ^ n \<le> c * 2"
    unfolding assms(2) using c0 ulp_powers(2) [OF n7] by (intro mult_left_mono) simp_all
  with assms(8) have hi: "x \<le> c * 2" by simp
  have x0: "0 < x" using lo c0 by linarith
  have "(1 / 2 ^ 1022 :: real) \<le> 1 / 2 ^ 1000 / 2" by simp
  also have "\<dots> \<le> c / 2" using assms(3) by simp
  finally have 1: "1 / 2 ^ 1022 \<le> \<bar>x\<bar>" using lo x0 by simp
  have "c * 2 \<le> 2 ^ 1000 * 2" using assms(4) by simp
  also have "\<dots> < (2 :: real) ^ 1023" by simp
  finally have 2: "\<bar>x\<bar> < 2 ^ 1023" using hi x0 by simp
  from round_f64_rel [OF 1 2] obtain y where y: "round_f64 x = Some y" "\<bar>y - x\<bar> \<le> \<bar>x\<bar> / 2 ^ 53"
    by blast
  from y(2) x0 have "x - x / 2 ^ 53 \<le> y" "y \<le> x + x / 2 ^ 53"
    by linarith+
  then have "x * lo \<le> y" "y \<le> x * hi"
    by (simp_all add: assms(1,2) algebra_simps)
  moreover have "c * lo ^ n * lo \<le> x * lo"
    using assms(7) lo0 by (rule mult_right_mono)
  moreover have "x * hi \<le> c * hi ^ n * hi"
    using assms(8) hi0 by (rule mult_right_mono)
  moreover have "c * lo ^ m = c * lo ^ n * lo" "c * hi ^ m = c * hi ^ n * hi"
    by (simp_all add: assms(6))
  ultimately have "c * lo ^ m \<le> y" "y \<le> c * hi ^ m"
    by linarith+
  with y(1) show ?thesis by blast
qed

lemma scale_mult:
  assumes "0 < (a::real)" "c * l \<le> t" "t \<le> c * h"
  shows "a * c * l \<le> a * t" "a * t \<le> a * c * h"
  using assms by (simp_all add: mult.assoc)

lemma scale_div:
  assumes "0 < (a::real)" "c * l \<le> t" "t \<le> c * h"
  shows "c / a * l \<le> t / a" "t / a \<le> c / a * h"
  using assms by (simp_all add: divide_right_mono field_simps)

lemma pi_f64_bounds: "1 \<le> pi_f64" "pi_f64 \<le> 4" "0 < pi_f64"
  by (simp_all add: pi_f64_def)

subsection \<open>One beam, rounding by rounding\<close>

text \<open>
  The doubles written \<open>0.002\<close> and \<open>1.55e-06\<close> are \<open>1152921504606847 / 2^59\<close> and
  \<open>3659834024223975 / 2^71\<close>.
\<close>

lemma double_0_002: "round_f64 (2 / 1000) = Some (1152921504606847 / 2 ^ 59)"
  using round_f64_eval [of "-9" "2 / 1000" "-61" 4611686018427388]
  by simp

lemma double_1_55e_06: "round_f64 (155 / 10 ^ 8) = Some (3659834024223975 / 2 ^ 71)"
  using round_f64_eval [of "-20" "155 / 10 ^ 8" "-72" 7319668048447950]
  by simp

text \<open>The double written \<open>0.0019999999999999996\<close> is \<open>4611686018427387 / 2^61\<close>.\<close>

lemma double_0_0019999999999999996:
  "round_f64 (19999999999999996 / 10 ^ 19) = Some (4611686018427387 / 2 ^ 61)"
  using round_f64_eval [of "-9" "19999999999999996 / 10 ^ 19" "-61" 4611686018427387]
  by simp

lemma cx_t1: "round_f64 ((1152921504606847 / 2 ^ 59) * (1152921504606847 / 2 ^ 59)) = Some (4722366482869645 / 2 ^ 70)"
  using round_f64_eval [of "-18" "(1152921504606847 / 2 ^ 59) * (1152921504606847 / 2 ^ 59)" "-70" 4722366482869645]
  by simp

lemma cx_t2: "round_f64 (pi_f64 * (4722366482869645 / 2 ^ 70)) = Some (7417875925070973 / 2 ^ 69)"
  unfolding pi_f64_def
  using round_f64_eval [of "-17" "(884279719003555 / 2 ^ 48) * (4722366482869645 / 2 ^ 70)" "-69" 7417875925070973]
  by simp

lemma cx_wl: "round_f64 (3659834024223975 / 2 ^ 71) = Some (3659834024223975 / 2 ^ 71)"
  using round_f64_eval [of "-20" "3659834024223975 / 2 ^ 71" "-72" 7319668048447950]
  by simp

lemma cx_t3: "round_f64 ((7417875925070973 / 2 ^ 69) / (3659834024223975 / 2 ^ 71)) = Some (1141006089036845 / 2 ^ 47)"
  using round_f64_eval [of 3 "(7417875925070973 / 2 ^ 69) / (3659834024223975 / 2 ^ 71)" "-49" 4564024356147380]
  by simp

lemma cx_t4: "round_f64 ((3659834024223975 / 2 ^ 71) * \<bar>1141006089036845 / 2 ^ 47\<bar>) = Some (1854468981267743 / 2 ^ 67)"
  using round_f64_eval [of "-17" "(3659834024223975 / 2 ^ 71) * (1141006089036845 / 2 ^ 47)" "-69" 7417875925070972]
  by simp

lemma cx_t5: "round_f64 ((1854468981267743 / 2 ^ 67) / pi_f64) = Some (1180591620717411 / 2 ^ 68)"
  unfolding pi_f64_def
  using round_f64_eval [of "-18" "(1854468981267743 / 2 ^ 67) / (884279719003555 / 2 ^ 48)" "-70" 4722366482869644]
  by simp

lemma cx_t6: "round_f64 (sqrt (1180591620717411 / 2 ^ 68)) = Some (4611686018427387 / 2 ^ 61)"
  using f64_sqrt_eval [of "-9" "1180591620717411 / 2 ^ 68" "-61" 4611686018427387]
  by (simp add: f64_sqrt_def power2_eq_square)

section \<open>The claims\<close>

text \<open>
  C1. After \<open>propagate_beam\<close> the stored \<open>q_out\<close> is claimed to be the bilinear transform
  \<open>(A q + B) / (C q + D)\<close> of \<open>q\<close> by the composed matrix. The method computes
  \<open>A q + (B / (C q + D))\<close> instead. For the beam of wavelength 1 and waist 1
  (\<open>q = i pi\<close>) behind a thin lens of focal length 1, the composed matrix is
  \<open>[[1, 0], [-1, 1]]\<close>: the method stores \<open>q_out = i pi\<close>, and the bilinear transform is
  \<open>i pi / (1 - i pi)\<close>, a different number.
\<close>

theorem propagate_beam_q_out_not_bilinear:
  "bind_err (OpticalSystem_init 1 1 0 0 NonFinite) (\<lambda>s.
     bind_err (lens 1 0 0 0 ''thin'' s) (\<lambda>s'.
       Inr (q_out (propagate_beam s'), bilinear_transform (ABCD_matrix (optics s')) (q s'))))
   = Inr (Some (Finite (\<i> * of_real pi)), \<i> * of_real pi / (1 - \<i> * of_real pi))
   \<and> \<i> * of_real pi / (1 - \<i> * of_real pi) \<noteq> \<i> * of_real pi"
proof -
  have "1 - \<i> * complex_of_real pi \<noteq> 0"
    by (simp add: complex_eq_iff)
  moreover have "1 - \<i> * complex_of_real pi \<noteq> 1"
    by (simp add: complex_eq_iff)
  ultimately have ne: "\<i> * of_real pi / (1 - \<i> * of_real pi) \<noteq> \<i> * of_real pi"
    by (simp add: divide_eq_eq)
  have "bind_err (OpticalSystem_init 1 1 0 0 NonFinite) (\<lambda>s.
     bind_err (lens 1 0 0 0 ''thin'' s) (\<lambda>s'.
       Inr (q_out (propagate_beam s'), bilinear_transform (ABCD_matrix (optics s')) (q s'))))
   = Inr (Some (Finite (\<i> * of_real pi)), \<i> * of_real pi / (1 - \<i> * of_real pi))"
    by (simp add: init_ok bind_err_def lens_def py_div_def propagate_beam_def Let_def
        ABCD_matrix_Cons ABCD_matrix_Nil matmul_eye_left compute_q_out_def np_cdivide_def
        np_bind_def bilinear_transform_def complex_eq_iff)
  with ne show ?thesis by simp
qed

text \<open>
  C2. For appended matrices \<open>e1, ..., en\<close> the loop of \<open>propagate_beam\<close> composes the
  product \<open>en ... e1\<close>: the matrix is the product of the reversed list, appending an element
  multiplies it on the left, and the first appended element acts first on the ray vector.
  The ray outputs and \<open>q_out\<close> are computed from that product.
\<close>

theorem propagate_beam_reverse_append_order:
  "ABCD_matrix es = matrix_product (rev es)
   \<and> ABCD_matrix (es @ [e]) = matmul e (ABCD_matrix es)
   \<and> ABCD_matrix [e1, e2, e3] = matmul e3 (matmul e2 e1)
   \<and> matvec (ABCD_matrix (e # es)) v = matvec (ABCD_matrix es) (matvec e v)
   \<and> z_out (propagate_beam s) =
       Some (fst (matvec (matrix_product (rev (optics s))) (z s, theta s)))
   \<and> theta_out (propagate_beam s) =
       Some (snd (matvec (matrix_product (rev (optics s))) (z s, theta s)))
   \<and> q_out (propagate_beam s) = Some (compute_q_out (matrix_product (rev (optics s))) (q s))"
  by (simp add: ABCD_matrix_product matrix_product_append matmul_eye_right matvec_matmul
      propagate_beam_def Let_def)

text \<open>
  C3. Identity propagation, in double precision: for a beam whose wavelength and
  waist lie between \<open>2^-300\<close> and \<open>2^300\<close> (wavelength, \<open>z\<close> and \<open>theta\<close> doubles), the
  constructor succeeds, the element list is empty, and \<open>propagate_beam\<close> stores
  \<open>z_out = z\<close>, \<open>theta_out = theta\<close> and \<open>q_out = q\<close> exactly, and a \<open>waist_out\<close> within
  \<open>2^-50 waist\<close> of \<open>waist\<close>: five roundings and a rounded root lie between the two.
\<close>

theorem identity_propagation_f64:
  assumes w: "1 / 2 ^ 300 \<le> w" "w \<le> 2 ^ 300"
    and wl: "1 / 2 ^ 300 \<le> wl" "wl \<le> 2 ^ 300" "round_f64 wl = Some wl"
    and z: "round_f64 z0 = Some z0" and th: "round_f64 th = Some th"
  shows "\<exists>s v. OpticalSystem_init_f64 wl w z0 th R = Inr (Some s) \<and> optics s = []
           \<and> z s = z0 \<and> theta s = th \<and> waist s = w \<and> wavelength s = wl
           \<and> z_out_f64 (propagate_beam_f64 s) = Some z0
           \<and> theta_out_f64 (propagate_beam_f64 s) = Some th
           \<and> q_out_f64 (propagate_beam_f64 s) = Some (q s)
           \<and> waist_out_f64 (propagate_beam_f64 s) = Some v
           \<and> \<bar>v - w\<bar> \<le> w / 2 ^ 50"
proof -
  define lo :: real where "lo = 1 - 1 / 2 ^ 53"
  define hi :: real where "hi = 1 + 1 / 2 ^ 53"
  note step = round_f64_step [OF lo_def hi_def]
  have lo: "0 < lo" "lo \<le> 1" and hi: "1 \<le> hi" by (simp_all add: lo_def hi_def)
  have "(0::real) < 1 / 2 ^ 300" by simp
  with w(1) wl(1) have w0: "0 < w" and wl0: "0 < wl" by linarith+
  note p = pi_f64_bounds
  \<comment> \<open>the exact values and their ranges\<close>
  have "(1 / 2 ^ 300) * (1 / 2 ^ 300) \<le> w * w" using w(1) by (intro mult_mono) simp_all
  then have c1_lo: "1 / 2 ^ 600 \<le> w * w" by simp
  have "w * w \<le> 2 ^ 300 * 2 ^ 300" using w(2) w0 by (intro mult_mono) simp_all
  then have c1_hi: "w * w \<le> 2 ^ 600" by simp
  have "1 * (1 / 2 ^ 600) \<le> pi_f64 * (w * w)" using c1_lo p by (intro mult_mono) simp_all
  then have c2_lo: "1 / 2 ^ 600 \<le> pi_f64 * (w * w)" by simp
  have "pi_f64 * (w * w) \<le> 4 * 2 ^ 600" using c1_hi p w0 by (intro mult_mono) simp_all
  then have c2_hi: "pi_f64 * (w * w) \<le> 2 ^ 602" by simp
  have "(1 / 2 ^ 600) / 2 ^ 300 \<le> pi_f64 * (w * w) / wl"
    using c2_lo wl(2) wl0 by (intro frac_le) simp_all
  then have c3_lo: "1 / 2 ^ 900 \<le> pi_f64 * (w * w) / wl" by simp
  have "pi_f64 * (w * w) / wl \<le> 2 ^ 602 / (1 / 2 ^ 300)"
    using c2_hi wl(1) p w0 by (intro frac_le) simp_all
  then have c3_hi: "pi_f64 * (w * w) / wl \<le> 2 ^ 902" by simp
  have small: "(1 / 2 ^ 1000 :: real) \<le> 1 / 2 ^ 300" "(1 / 2 ^ 1000 :: real) \<le> 1 / 2 ^ 600"
    "(1 / 2 ^ 1000 :: real) \<le> 1 / 2 ^ 900" by simp_all
  have large: "(2 ^ 300 :: real) \<le> 2 ^ 1000" "(2 ^ 600 :: real) \<le> 2 ^ 1000"
    "(2 ^ 602 :: real) \<le> 2 ^ 1000" "(2 ^ 902 :: real) \<le> 2 ^ 1000" by simp_all
  have r1: "1 / 2 ^ 1000 \<le> w * w" "w * w \<le> 2 ^ 1000"
    using c1_lo c1_hi small large by linarith+
  have r2: "1 / 2 ^ 1000 \<le> pi_f64 * (w * w)" "pi_f64 * (w * w) \<le> 2 ^ 1000"
    using c2_lo c2_hi small large by linarith+
  have r3: "1 / 2 ^ 1000 \<le> pi_f64 * (w * w) / wl" "pi_f64 * (w * w) / wl \<le> 2 ^ 1000"
    using c3_lo c3_hi small large by linarith+
  have r6: "1 / 2 ^ 1000 \<le> w" "w \<le> 2 ^ 1000"
    using w small large by linarith+
  \<comment> \<open>line 20\<close>
  have "\<exists>y. round_f64 (w * w) = Some y \<and> w * w * lo ^ 1 \<le> y \<and> y \<le> w * w * hi ^ 1"
    by (rule step [OF r1, of 0]) simp_all
  then obtain t1 where t1: "round_f64 (w * w) = Some t1"
      "w * w * lo ^ 1 \<le> t1" "t1 \<le> w * w * hi ^ 1" by blast
  have "\<exists>y. round_f64 (pi_f64 * t1) = Some y \<and> pi_f64 * (w * w) * lo ^ 2 \<le> y
          \<and> y \<le> pi_f64 * (w * w) * hi ^ 2"
    by (rule step [OF r2, of 1]) (use scale_mult [OF p(3) t1(2,3)] in simp_all)
  then obtain t2 where t2: "round_f64 (pi_f64 * t1) = Some t2"
      "pi_f64 * (w * w) * lo ^ 2 \<le> t2" "t2 \<le> pi_f64 * (w * w) * hi ^ 2" by blast
  have "\<exists>y. round_f64 (t2 / wl) = Some y \<and> pi_f64 * (w * w) / wl * lo ^ 3 \<le> y
          \<and> y \<le> pi_f64 * (w * w) / wl * hi ^ 3"
    by (rule step [OF r3, of 2]) (use scale_div [OF wl0 t2(2,3)] in simp_all)
  then obtain t3 where t3: "round_f64 (t2 / wl) = Some t3"
      "pi_f64 * (w * w) / wl * lo ^ 3 \<le> t3" "t3 \<le> pi_f64 * (w * w) / wl * hi ^ 3" by blast
  have "0 < pi_f64 * (w * w) / wl * lo ^ 3" using p w0 wl0 lo by simp
  with t3(2) have t3_pos: "0 < t3" by linarith
  have init: "OpticalSystem_init_f64 wl w z0 th R =
     Inr (Some \<lparr>q = Complex 0 t3, wavelength = wl, waist = w, theta = th, z = z0,
            optics = [], q_out = None, waist_out = None, z_out = None, theta_out = None\<rparr>)"
    using t1(1) t2(1) _ wl(3) t3(1) by (rule init_f64_value) (use wl0 in simp)
  \<comment> \<open>line 98\<close>
  have wc: "wl * (pi_f64 * (w * w) / wl) = pi_f64 * (w * w)" using wl0 by simp
  have "\<exists>y. round_f64 (wl * t3) = Some y \<and> pi_f64 * (w * w) * lo ^ 4 \<le> y
          \<and> y \<le> pi_f64 * (w * w) * hi ^ 4"
    by (rule step [OF r2, of 3]) (use scale_mult [OF wl0 t3(2,3), unfolded wc] in simp_all)
  then obtain t4 where t4: "round_f64 (wl * t3) = Some t4"
      "pi_f64 * (w * w) * lo ^ 4 \<le> t4" "t4 \<le> pi_f64 * (w * w) * hi ^ 4" by blast
  have pc: "pi_f64 * (w * w) / pi_f64 = w * w" using p by simp
  have "\<exists>y. round_f64 (t4 / pi_f64) = Some y \<and> w * w * lo ^ 5 \<le> y \<and> y \<le> w * w * hi ^ 5"
    by (rule step [OF r1, of 4]) (use scale_div [OF p(3) t4(2,3), unfolded pc] in simp_all)
  then obtain t5 where t5: "round_f64 (t4 / pi_f64) = Some t5"
      "w * w * lo ^ 5 \<le> t5" "t5 \<le> w * w * hi ^ 5" by blast
  have "0 < w * w * lo ^ 5" using w0 lo by simp
  with t5(2) have t5_pos: "0 < t5" by linarith
  have "(w * lo ^ 3)\<^sup>2 = w * w * (lo ^ 3 * lo ^ 3)" by (simp add: power2_eq_square)
  also have "lo ^ 3 * lo ^ 3 = lo ^ 6" by (simp flip: power_add)
  also have "w * w * lo ^ 6 \<le> w * w * lo ^ 5"
    using w0 lo by (intro mult_left_mono power_decreasing) simp_all
  finally have "(w * lo ^ 3)\<^sup>2 \<le> t5" using t5(2) by linarith
  then have s_lo: "w * lo ^ 3 \<le> sqrt t5" by (rule real_le_rsqrt)
  have "w * w * hi ^ 5 \<le> w * w * hi ^ 6"
    using w0 hi by (intro mult_left_mono power_increasing) simp_all
  also have "hi ^ 6 = hi ^ 3 * hi ^ 3" by (simp flip: power_add)
  also have "w * w * (hi ^ 3 * hi ^ 3) = (w * hi ^ 3)\<^sup>2" by (simp add: power2_eq_square)
  finally have "t5 \<le> (w * hi ^ 3)\<^sup>2" using t5(3) by linarith
  moreover have "0 \<le> w * hi ^ 3" using w0 hi by simp
  ultimately have s_hi: "sqrt t5 \<le> w * hi ^ 3" by (intro real_le_lsqrt)
  have "\<exists>y. round_f64 (sqrt t5) = Some y \<and> w * lo ^ 4 \<le> y \<and> y \<le> w * hi ^ 4"
    by (rule step [OF r6, of 3]) (use s_lo s_hi in simp_all)
  then obtain t6 where t6: "round_f64 (sqrt t5) = Some t6"
      "w * lo ^ 4 \<le> t6" "t6 \<le> w * hi ^ 4" by blast
  let ?s = "\<lparr>q = Complex 0 t3, wavelength = wl, waist = w, theta = th, z = z0,
            optics = [], q_out = None, waist_out = None, z_out = None, theta_out = None\<rparr>"
  have t4': "round_f64 (wavelength ?s * \<bar>t3\<bar>) = Some t4" using t4(1) t3_pos by simp
  have pb: "propagate_beam_f64 ?s =
     \<lparr>q_out_f64 = Some (Complex 0 t3), waist_out_f64 = Some t6,
      z_out_f64 = Some z0, theta_out_f64 = Some th\<rparr>"
    using propagate_beam_f64_empty [of ?s t3 t4 t5 t6] round_f64_idem [OF t3(1)] t3_pos
      z th t4' t5(1) t5_pos t6(1)
    by simp
  \<comment> \<open>four roundings and a root away from \<open>w\<close>\<close>
  have "(1 - 1 / 2 ^ 50 :: real) \<le> lo ^ 4" "hi ^ 4 \<le> (1 + 1 / 2 ^ 50 :: real)"
    by (simp_all add: lo_def hi_def power_divide)
  then have "w * (1 - 1 / 2 ^ 50) \<le> w * lo ^ 4" "w * hi ^ 4 \<le> w * (1 + 1 / 2 ^ 50)"
    using w0 by (simp_all add: mult_left_mono)
  then have "w - w / 2 ^ 50 \<le> t6" "t6 \<le> w + w / 2 ^ 50"
    using t6(2,3) by (simp_all add: algebra_simps)
  then have "\<bar>t6 - w\<bar> \<le> w / 2 ^ 50" by linarith
  with init pb show ?thesis
    by (intro exI [of _ ?s] exI [of _ t6]) simp
qed

theorem identity_propagation_f64_witness:
  "(1 / 2 ^ 300 \<le> (1152921504606847 / 2 ^ 59 :: real) \<and> (1152921504606847 / 2 ^ 59 :: real) \<le> 2 ^ 300
    \<and> 1 / 2 ^ 300 \<le> (3659834024223975 / 2 ^ 71 :: real) \<and> (3659834024223975 / 2 ^ 71 :: real) \<le> 2 ^ 300
    \<and> round_f64 (3659834024223975 / 2 ^ 71) = Some (3659834024223975 / 2 ^ 71)
    \<and> round_f64 0 = Some 0)
   \<and> (\<exists>s v. OpticalSystem_init_f64 (3659834024223975 / 2 ^ 71) (1152921504606847 / 2 ^ 59) 0 0
              NonFinite = Inr (Some s) \<and> optics s = []
           \<and> z_out_f64 (propagate_beam_f64 s) = Some 0
           \<and> theta_out_f64 (propagate_beam_f64 s) = Some 0
           \<and> q_out_f64 (propagate_beam_f64 s) = Some (q s)
           \<and> waist_out_f64 (propagate_beam_f64 s) = Some v
           \<and> \<bar>v - 1152921504606847 / 2 ^ 59\<bar> \<le> (1152921504606847 / 2 ^ 59) / 2 ^ 50)"
proof -
  have a: "1 / 2 ^ 300 \<le> (1152921504606847 / 2 ^ 59 :: real)"
      "(1152921504606847 / 2 ^ 59 :: real) \<le> 2 ^ 300"
      "1 / 2 ^ 300 \<le> (3659834024223975 / 2 ^ 71 :: real)"
      "(3659834024223975 / 2 ^ 71 :: real) \<le> 2 ^ 300"
    by simp_all
  have z: "round_f64 0 = Some 0" by simp
  from identity_propagation_f64 [OF a cx_wl z z, of NonFinite] obtain s v where
    "OpticalSystem_init_f64 (3659834024223975 / 2 ^ 71) (1152921504606847 / 2 ^ 59) 0 0
        NonFinite = Inr (Some s)" "optics s = []"
    "z_out_f64 (propagate_beam_f64 s) = Some 0" "theta_out_f64 (propagate_beam_f64 s) = Some 0"
    "q_out_f64 (propagate_beam_f64 s) = Some (q s)"
    "waist_out_f64 (propagate_beam_f64 s) = Some v"
    "\<bar>v - 1152921504606847 / 2 ^ 59\<bar> \<le> (1152921504606847 / 2 ^ 59) / 2 ^ 50"
    by blast
  then have "\<exists>s v. OpticalSystem_init_f64 (3659834024223975 / 2 ^ 71) (1152921504606847 / 2 ^ 59) 0 0
              NonFinite = Inr (Some s) \<and> optics s = []
           \<and> z_out_f64 (propagate_beam_f64 s) = Some 0
           \<and> theta_out_f64 (propagate_beam_f64 s) = Some 0
           \<and> q_out_f64 (propagate_beam_f64 s) = Some (q s)
           \<and> waist_out_f64 (propagate_beam_f64 s) = Some v
           \<and> \<bar>v - 1152921504606847 / 2 ^ 59\<bar> \<le> (1152921504606847 / 2 ^ 59) / 2 ^ 50"
    by blast
  with a cx_wl z show ?thesis by blast
qed

text \<open>
  As first stated, with \<open>waist_out = waist\<close>, the property fails: the beam with
  \<open>wavelength = 1.55e-06\<close> and \<open>waist = 0.002\<close> is constructed with
  \<open>q = 8.107335880231723j\<close>, and \<open>propagate_beam\<close> on its empty element list stores
  \<open>waist_out = 0.0019999999999999996\<close>, one unit in the last place below \<open>waist\<close>.
\<close>

theorem identity_propagation_waist_counterexample:
  "(0::real) < 3659834024223975 / 2 ^ 71 \<and> (0::real) < 1152921504606847 / 2 ^ 59
   \<and> OpticalSystem_init_f64 (3659834024223975 / 2 ^ 71) (1152921504606847 / 2 ^ 59) 0 0 NonFinite =
       Inr (Some \<lparr>q = Complex 0 (1141006089036845 / 2 ^ 47), wavelength = 3659834024223975 / 2 ^ 71,
           waist = 1152921504606847 / 2 ^ 59, theta = 0, z = 0, optics = [], q_out = None,
           waist_out = None, z_out = None, theta_out = None\<rparr>)
   \<and> waist_out_f64 (propagate_beam_f64 \<lparr>q = Complex 0 (1141006089036845 / 2 ^ 47), wavelength = 3659834024223975 / 2 ^ 71,
           waist = 1152921504606847 / 2 ^ 59, theta = 0, z = 0, optics = [], q_out = None,
           waist_out = None, z_out = None, theta_out = None\<rparr>) =
       Some (4611686018427387 / 2 ^ 61)
   \<and> (4611686018427387 / 2 ^ 61 :: real) \<noteq> waist \<lparr>q = Complex 0 (1141006089036845 / 2 ^ 47), wavelength = 3659834024223975 / 2 ^ 71,
           waist = 1152921504606847 / 2 ^ 59, theta = 0, z = 0, optics = [], q_out = None,
           waist_out = None, z_out = None, theta_out = None\<rparr>"
proof -
  let ?s = "\<lparr>q = Complex 0 (1141006089036845 / 2 ^ 47), wavelength = 3659834024223975 / 2 ^ 71,
           waist = 1152921504606847 / 2 ^ 59, theta = 0, z = 0, optics = [], q_out = None,
           waist_out = None, z_out = None, theta_out = None\<rparr>"
  have i: "OpticalSystem_init_f64 (3659834024223975 / 2 ^ 71) (1152921504606847 / 2 ^ 59) 0 0
      NonFinite = Inr (Some ?s)"
    using cx_t1 cx_t2 _ cx_wl cx_t3 by (rule init_f64_value) simp
  have t3: "round_f64 (1141006089036845 / 2 ^ 47) = Some (1141006089036845 / 2 ^ 47)"
    using cx_t3 by (rule round_f64_idem)
  have "propagate_beam_f64 ?s =
     \<lparr>q_out_f64 = Some (Complex 0 (1141006089036845 / 2 ^ 47)),
      waist_out_f64 = Some (4611686018427387 / 2 ^ 61),
      z_out_f64 = Some (z ?s), theta_out_f64 = Some (theta ?s)\<rparr>"
    by (rule propagate_beam_f64_empty [where ?t4.0 = "1854468981267743 / 2 ^ 67"
          and ?t5.0 = "1180591620717411 / 2 ^ 68"])
       (use t3 cx_t4 cx_t5 cx_t6 in simp_all)
  with i show ?thesis by simp
qed

text \<open>
  C4. For a beam state of wavelength at least 0: when the \<open>q_out\<close> that \<open>propagate_beam\<close>
  stored is a finite number with nonzero imaginary part, the stored \<open>waist_out\<close> is
  \<open>sqrt (wavelength |Im q_out| / pi) * sqrt (1 + (Re q_out / Im q_out)^2)\<close> of that
  \<open>q_out\<close>.
\<close>

theorem waist_out_formula:
  assumes "q_out (propagate_beam s) = Some (Finite qo)" "Im qo \<noteq> 0" "0 \<le> wavelength s"
  shows "waist_out (propagate_beam s) =
     Some (Finite (sqrt (wavelength s * \<bar>Im qo\<bar> / pi) * sqrt (1 + (Re qo / Im qo) ^ 2)))"
proof -
  from assms(1) have qo: "compute_q_out (ABCD_matrix (optics s)) (q s) = Finite qo"
    by (simp add: propagate_beam_def Let_def)
  have "0 \<le> wavelength s * \<bar>Im qo\<bar> / pi" using assms(3) by simp
  moreover have "0 \<le> 1 + (Re qo / Im qo) ^ 2" by (simp add: add_nonneg_nonneg)
  ultimately show ?thesis
    using assms(2) qo
    by (simp add: propagate_beam_def Let_def compute_waist_out_def np_bind_def np_sqrt_def
        np_divide_def not_less [symmetric])
qed

theorem waist_out_formula_witness:
  "q_out (propagate_beam \<lparr>q = \<i> * of_real pi, wavelength = 1, waist = 1, theta = 0, z = 0,
       optics = [Matrix 1 1 0 1], q_out = None, waist_out = None, z_out = None,
       theta_out = None\<rparr>) = Some (Finite (\<i> * of_real pi + 1))
   \<and> Im (\<i> * of_real pi + 1) \<noteq> 0
   \<and> (0::real) \<le> 1
   \<and> waist_out (propagate_beam \<lparr>q = \<i> * of_real pi, wavelength = 1, waist = 1, theta = 0,
       z = 0, optics = [Matrix 1 1 0 1], q_out = None, waist_out = None, z_out = None,
       theta_out = None\<rparr>) = Some (Finite (sqrt (1 * \<bar>pi\<bar> / pi) * sqrt (1 + (1 / pi) ^ 2)))"
proof -
  let ?s = "\<lparr>q = \<i> * of_real pi, wavelength = 1, waist = 1, theta = 0, z = 0,
       optics = [Matrix 1 1 0 1], q_out = None, waist_out = None, z_out = None,
       theta_out = None\<rparr>"
  have a: "q_out (propagate_beam ?s) = Some (Finite (\<i> * of_real pi + 1))"
    by (simp add: propagate_beam_def Let_def ABCD_matrix_Cons ABCD_matrix_Nil matmul_eye_left
        compute_q_out_bottom_row)
  have b: "Im (\<i> * of_real pi + 1) \<noteq> 0" by simp
  have c: "0 \<le> wavelength ?s" by simp
  from waist_out_formula [OF a b c] a show ?thesis by simp
qed

text \<open>
  C5. Free-space composition: from any state, appending free space \<open>d1\<close> and then free
  space \<open>d2\<close> and propagating stores the same \<open>q_out\<close>, \<open>z_out\<close> and \<open>theta_out\<close> as
  appending the single free space \<open>d1 + d2\<close> and propagating.
\<close>

theorem freeSpace_composition:
  "q_out (propagate_beam (fst (freeSpace d2 True (fst (freeSpace d1 True s)))))
     = q_out (propagate_beam (fst (freeSpace (d1 + d2) True s)))
   \<and> z_out (propagate_beam (fst (freeSpace d2 True (fst (freeSpace d1 True s)))))
     = z_out (propagate_beam (fst (freeSpace (d1 + d2) True s)))
   \<and> theta_out (propagate_beam (fst (freeSpace d2 True (fst (freeSpace d1 True s)))))
     = theta_out (propagate_beam (fst (freeSpace (d1 + d2) True s)))"
  by (simp add: freeSpace_def propagate_beam_def Let_def ABCD_matrix_append ABCD_matrix_Cons
      ABCD_matrix_Nil matmul_eye_left add.commute)

text \<open>
  C6. Interface round trip: on a freshly constructed beam, \<open>interface(1.0, 1.5, 0)\<close>
  followed by \<open>interface(1.5, 1.0, 0)\<close> both succeed, and \<open>propagate_beam\<close> then stores
  \<open>q_out = q\<close>.
\<close>

theorem interface_round_trip:
  assumes "OpticalSystem_init wl w z0 th R = Inr s"
  shows "bind_err (bind_err (interface 1.0 1.5 0 s) (interface 1.5 1.0 0))
           (\<lambda>s'. Inr (q_out (propagate_beam s'))) = Inr (Some (Finite (q s)))"
proof -
  from assms have "optics s = []"
    by (rule init_fields)
  then show ?thesis
    by (simp add: interface_matrix bind_err_def propagate_beam_def Let_def ABCD_matrix_Cons
        ABCD_matrix_Nil matmul_eye_left eye_def compute_q_out_bottom_row)
qed

theorem interface_round_trip_witness:
  "OpticalSystem_init 1 1 0 0 NonFinite = Inr 
       \<lparr>q = \<i> * of_real pi, wavelength = 1, waist = 1, theta = 0, z = 0, optics = [],
        q_out = None, waist_out = None, z_out = None, theta_out = None\<rparr>
   \<and> bind_err (bind_err (interface 1.0 1.5 0 
       \<lparr>q = \<i> * of_real pi, wavelength = 1, waist = 1, theta = 0, z = 0, optics = [],
        q_out = None, waist_out = None, z_out = None, theta_out = None\<rparr>) (interface 1.5 1.0 0))
           (\<lambda>s'. Inr (q_out (propagate_beam s'))) = Inr (Some (Finite (\<i> * of_real pi)))"
proof -
  have h: "OpticalSystem_init 1 1 0 0 NonFinite = Inr 
       \<lparr>q = \<i> * of_real pi, wavelength = 1, waist = 1, theta = 0, z = 0, optics = [],
        q_out = None, waist_out = None, z_out = None, theta_out = None\<rparr>"
    by (simp add: init_ok)
  from interface_round_trip [OF h] h show ?thesis by simp
qed

text \<open>
  C7. Calling \<open>propagate_beam\<close> a second time with no append in between returns the very
  state the first call returned, so \<open>q_out\<close>, \<open>waist_out\<close>, \<open>z_out\<close> and \<open>theta_out\<close>
  are the same; and a call changes none of the attributes it reads.
\<close>

theorem propagate_beam_idempotent:
  "propagate_beam (propagate_beam s) = propagate_beam s
   \<and> q (propagate_beam s) = q s \<and> wavelength (propagate_beam s) = wavelength s
   \<and> waist (propagate_beam s) = waist s \<and> theta (propagate_beam s) = theta s
   \<and> z (propagate_beam s) = z s \<and> optics (propagate_beam s) = optics s"
  by (simp add: propagate_beam_def Let_def)

text \<open>
  C8. \<open>mirror(radius=0, type='curved')\<close> raises: the Python division \<open>-2/radius\<close> is a
  \<open>ZeroDivisionError\<close>, raised before anything is appended, so no matrix with an infinite
  or NaN entry comes to exist.
\<close>

theorem curved_mirror_zero_radius_raises:
  "mirror 0 ''curved'' s = Inl ZeroDivisionError"
  by (simp add: mirror_def py_div_def bind_err_def)

text \<open>
  C9. On an instance that was constructed and given any sequence of successful element
  calls, but never propagated, \<open>plotBeamProfile\<close> raises its \<open>ValueError\<close>, and reading
  \<open>q_out\<close>, \<open>waist_out\<close>, \<open>z_out\<close> or \<open>theta_out\<close> is an error too.
\<close>

theorem plot_before_propagate_raises:
  assumes "OpticalSystem_init wl w z0 th R = Inr s0" "append_calls cs s0 = Inr s"
  shows "plotBeamProfile s = Inl (ValueError
            ''Beam has not been propagated yet. Run the propagate_beam() method first.'')
    \<and> getattr (q_out s) = Inl AttributeError \<and> getattr (waist_out s) = Inl AttributeError
    \<and> getattr (z_out s) = Inl AttributeError \<and> getattr (theta_out s) = Inl AttributeError"
  using init_fields [OF assms(1)] append_calls_outputs [OF assms(2)]
  by (simp add: plotBeamProfile_def getattr_def)

theorem plot_before_propagate_raises_witness:
  "OpticalSystem_init 1 1 0 0 NonFinite = Inr 
       \<lparr>q = \<i> * of_real pi, wavelength = 1, waist = 1, theta = 0, z = 0, optics = [],
        q_out = None, waist_out = None, z_out = None, theta_out = None\<rparr>
   \<and> append_calls [FreeSpace 1, Lens 2 0 0 0 ''thin''] 
       \<lparr>q = \<i> * of_real pi, wavelength = 1, waist = 1, theta = 0, z = 0, optics = [],
        q_out = None, waist_out = None, z_out = None, theta_out = None\<rparr> =
       Inr \<lparr>q = \<i> * of_real pi, wavelength = 1, waist = 1, theta = 0, z = 0,
            optics = [Matrix 1 1 0 1, Matrix 1 0 (- 1 / 2) 1],
            q_out = None, waist_out = None, z_out = None, theta_out = None\<rparr>
   \<and> plotBeamProfile \<lparr>q = \<i> * of_real pi, wavelength = 1, waist = 1, theta = 0, z = 0,
            optics = [Matrix 1 1 0 1, Matrix 1 0 (- 1 / 2) 1],
            q_out = None, waist_out = None, z_out = None, theta_out = None\<rparr> =
       Inl (ValueError
            ''Beam has not been propagated yet. Run the propagate_beam() method first.'')"
proof -
  have h: "OpticalSystem_init 1 1 0 0 NonFinite = Inr 
       \<lparr>q = \<i> * of_real pi, wavelength = 1, waist = 1, theta = 0, z = 0, optics = [],
        q_out = None, waist_out = None, z_out = None, theta_out = None\<rparr>"
    by (simp add: init_ok)
  have a: "append_calls [FreeSpace 1, Lens 2 0 0 0 ''thin''] 
       \<lparr>q = \<i> * of_real pi, wavelength = 1, waist = 1, theta = 0, z = 0, optics = [],
        q_out = None, waist_out = None, z_out = None, theta_out = None\<rparr> =
       Inr \<lparr>q = \<i> * of_real pi, wavelength = 1, waist = 1, theta = 0, z = 0,
            optics = [Matrix 1 1 0 1, Matrix 1 0 (- 1 / 2) 1],
            q_out = None, waist_out = None, z_out = None, theta_out = None\<rparr>"
    by (simp add: bind_err_def freeSpace_def lens_def py_div_def)
  from plot_before_propagate_raises [OF h a] h a show ?thesis by simp
qed

text \<open>
  C10. Two calls of \<open>lens\<close> with \<open>type='thin'\<close> and the same \<open>f\<close> have the same outcome
  whatever \<open>n1\<close>, \<open>n2\<close> and \<open>d\<close> are; for \<open>f\<close> other than 0 the outcome is the state with
  the matrix \<open>[[1, 0], [-1/f, 1]]\<close> appended.
\<close>

theorem thin_lens_ignores_indices:
  "lens f n1 n2 d ''thin'' s = lens f n1' n2' d' ''thin'' s
   \<and> (f \<noteq> 0 \<longrightarrow>
        lens f n1 n2 d ''thin'' s = Inr (s\<lparr>optics := optics s @ [Matrix 1 0 (- 1 / f) 1]\<rparr>))"
  by (simp add: lens_def py_div_def bind_err_def)

theorem thin_lens_ignores_indices_witness:
  "(2::real) \<noteq> 0
   \<and> lens 2 1 (3 / 2) 5 ''thin'' 
       \<lparr>q = \<i> * of_real pi, wavelength = 1, waist = 1, theta = 0, z = 0, optics = [],
        q_out = None, waist_out = None, z_out = None, theta_out = None\<rparr> = lens 2 0 0 0 ''thin'' 
       \<lparr>q = \<i> * of_real pi, wavelength = 1, waist = 1, theta = 0, z = 0, optics = [],
        q_out = None, waist_out = None, z_out = None, theta_out = None\<rparr>
   \<and> lens 2 1 (3 / 2) 5 ''thin'' 
       \<lparr>q = \<i> * of_real pi, wavelength = 1, waist = 1, theta = 0, z = 0, optics = [],
        q_out = None, waist_out = None, z_out = None, theta_out = None\<rparr> =
       Inr \<lparr>q = \<i> * of_real pi, wavelength = 1, waist = 1, theta = 0, z = 0,
            optics = [Matrix 1 0 (- 1 / 2) 1],
            q_out = None, waist_out = None, z_out = None, theta_out = None\<rparr>"
  using thin_lens_ignores_indices [of 2 1 "3 / 2" 5 "
       \<lparr>q = \<i> * of_real pi, wavelength = 1, waist = 1, theta = 0, z = 0, optics = [],
        q_out = None, waist_out = None, z_out = None, theta_out = None\<rparr>" 0 0 0]
  by auto

end
